theory Spec2Isabelle
  imports Complex_Main
begin

section \<open>Numbers\<close>

text \<open>
  The program computes with JavaScript numbers. They are modelled as exact real numbers
  (rounding and overflow are left out) together with the three special values that the
  source can produce on inputs it does not guard: \<open>Infinity\<close>, \<open>-Infinity\<close> and \<open>NaN\<close>.
  Where a function of the source only adds, multiplies, compares or divides by a constant,
  its model works on \<open>real\<close> directly; where the source divides by a computed value or
  takes a logarithm, the model works on \<open>jsnum\<close>, so that \<open>0 / 0\<close> is \<open>NaN\<close> and
  \<open>Math.log(0)\<close> is \<open>-Infinity\<close> as in the source. Zero carries no sign: every zero
  divisor is taken as \<open>+0\<close>.
\<close>

datatype jsnum = Fin real | PosInf | NegInf | NaN

fun js_add :: "jsnum \<Rightarrow> jsnum \<Rightarrow> jsnum" where
  "js_add NaN _ = NaN"
| "js_add _ NaN = NaN"
| "js_add (Fin a) (Fin b) = Fin (a + b)"
| "js_add PosInf NegInf = NaN"
| "js_add NegInf PosInf = NaN"
| "js_add PosInf _ = PosInf"
| "js_add _ PosInf = PosInf"
| "js_add NegInf _ = NegInf"
| "js_add _ NegInf = NegInf"

fun js_neg :: "jsnum \<Rightarrow> jsnum" where
  "js_neg (Fin a) = Fin (- a)"
| "js_neg PosInf = NegInf"
| "js_neg NegInf = PosInf"
| "js_neg NaN = NaN"

fun js_mul :: "jsnum \<Rightarrow> jsnum \<Rightarrow> jsnum" where
  "js_mul NaN _ = NaN"
| "js_mul _ NaN = NaN"
| "js_mul (Fin a) (Fin b) = Fin (a * b)"
| "js_mul PosInf (Fin b) = (if b = 0 then NaN else if 0 < b then PosInf else NegInf)"
| "js_mul NegInf (Fin b) = (if b = 0 then NaN else if 0 < b then NegInf else PosInf)"
| "js_mul (Fin a) PosInf = (if a = 0 then NaN else if 0 < a then PosInf else NegInf)"
| "js_mul (Fin a) NegInf = (if a = 0 then NaN else if 0 < a then NegInf else PosInf)"
| "js_mul PosInf PosInf = PosInf"
| "js_mul NegInf NegInf = PosInf"
| "js_mul PosInf NegInf = NegInf"
| "js_mul NegInf PosInf = NegInf"

fun js_div :: "jsnum \<Rightarrow> jsnum \<Rightarrow> jsnum" where
  "js_div NaN _ = NaN"
| "js_div _ NaN = NaN"
| "js_div (Fin a) (Fin b) =
     (if b \<noteq> 0 then Fin (a / b)
      else if 0 < a then PosInf else if a < 0 then NegInf else NaN)"
| "js_div (Fin a) PosInf = Fin 0"
| "js_div (Fin a) NegInf = Fin 0"
| "js_div PosInf (Fin b) = (if 0 \<le> b then PosInf else NegInf)"
| "js_div NegInf (Fin b) = (if 0 \<le> b then NegInf else PosInf)"
| "js_div _ _ = NaN"

fun js_less :: "jsnum \<Rightarrow> jsnum \<Rightarrow> bool" where
  "js_less NaN _ = False"
| "js_less _ NaN = False"
| "js_less (Fin a) (Fin b) = (a < b)"
| "js_less NegInf NegInf = False"
| "js_less NegInf _ = True"
| "js_less _ NegInf = False"
| "js_less PosInf _ = False"
| "js_less _ PosInf = True"

fun js_less_eq :: "jsnum \<Rightarrow> jsnum \<Rightarrow> bool" where
  "js_less_eq NaN _ = False"
| "js_less_eq _ NaN = False"
| "js_less_eq (Fin a) (Fin b) = (a \<le> b)"
| "js_less_eq NegInf _ = True"
| "js_less_eq _ PosInf = True"
| "js_less_eq _ NegInf = False"
| "js_less_eq PosInf _ = False"

fun js_abs :: "jsnum \<Rightarrow> jsnum" where
  "js_abs (Fin a) = Fin \<bar>a\<bar>"
| "js_abs PosInf = PosInf"
| "js_abs NegInf = PosInf"
| "js_abs NaN = NaN"

instantiation jsnum :: "{plus, minus, uminus, times, inverse, abs, ord}"
begin

definition plus_jsnum :: "jsnum \<Rightarrow> jsnum \<Rightarrow> jsnum" where
  "plus_jsnum a b = js_add a b"

definition uminus_jsnum :: "jsnum \<Rightarrow> jsnum" where
  "uminus_jsnum a = js_neg a"

definition minus_jsnum :: "jsnum \<Rightarrow> jsnum \<Rightarrow> jsnum" where
  "minus_jsnum a b = js_add a (js_neg b)"

definition times_jsnum :: "jsnum \<Rightarrow> jsnum \<Rightarrow> jsnum" where
  "times_jsnum a b = js_mul a b"

definition divide_jsnum :: "jsnum \<Rightarrow> jsnum \<Rightarrow> jsnum" where
  "divide_jsnum a b = js_div a b"

definition inverse_jsnum :: "jsnum \<Rightarrow> jsnum" where
  "inverse_jsnum a = js_div (Fin 1) a"

definition abs_jsnum :: "jsnum \<Rightarrow> jsnum" where
  "abs_jsnum a = js_abs a"

definition less_jsnum :: "jsnum \<Rightarrow> jsnum \<Rightarrow> bool" where
  "less_jsnum a b = js_less a b"

definition less_eq_jsnum :: "jsnum \<Rightarrow> jsnum \<Rightarrow> bool" where
  "less_eq_jsnum a b = js_less_eq a b"

instance ..

end

declare plus_jsnum_def [simp] uminus_jsnum_def [simp] minus_jsnum_def [simp]
  times_jsnum_def [simp] divide_jsnum_def [simp] inverse_jsnum_def [simp]
  abs_jsnum_def [simp] less_jsnum_def [simp] less_eq_jsnum_def [simp]

text \<open>\<open>Math.sqrt\<close>, \<open>Math.exp\<close>, \<open>Math.log\<close>, \<open>Math.pow\<close> with a whole exponent,
  \<open>Math.max\<close>, \<open>Math.round\<close>, \<open>Math.tanh\<close> and \<open>Math.cos\<close>.\<close>

fun js_sqrt :: "jsnum \<Rightarrow> jsnum" where
  "js_sqrt (Fin a) = (if 0 \<le> a then Fin (sqrt a) else NaN)"
| "js_sqrt PosInf = PosInf"
| "js_sqrt _ = NaN"

fun js_exp :: "jsnum \<Rightarrow> jsnum" where
  "js_exp (Fin a) = Fin (exp a)"
| "js_exp PosInf = PosInf"
| "js_exp NegInf = Fin 0"
| "js_exp NaN = NaN"

fun js_log :: "jsnum \<Rightarrow> jsnum" where
  "js_log (Fin a) = (if 0 < a then Fin (ln a) else if a = 0 then NegInf else NaN)"
| "js_log PosInf = PosInf"
| "js_log _ = NaN"

primrec js_pow :: "jsnum \<Rightarrow> nat \<Rightarrow> jsnum" where
  "js_pow a 0 = Fin 1"
| "js_pow a (Suc n) = a * js_pow a n"


fun js_round :: "jsnum \<Rightarrow> jsnum" where
  "js_round (Fin a) = Fin (of_int \<lfloor>a + 1 / 2\<rfloor>)"
| "js_round a = a"

fun js_tanh :: "jsnum \<Rightarrow> jsnum" where
  "js_tanh (Fin a) = Fin (tanh a)"
| "js_tanh PosInf = Fin 1"
| "js_tanh NegInf = Fin (- 1)"
| "js_tanh NaN = NaN"


text \<open>The remainder operator \<open>%\<close> on whole numbers: the result has the sign of the
  dividend.\<close>

definition js_rem :: "int \<Rightarrow> int \<Rightarrow> int" where
  "js_rem a b = sgn a * (\<bar>a\<bar> mod \<bar>b\<bar>)"

text \<open>A whole number printed in a template literal.\<close>

definition digit_char :: "nat \<Rightarrow> char" where
  "digit_char n = ''0123456789'' ! n"

function string_of_nat :: "nat \<Rightarrow> string" where
  "string_of_nat n =
     (if n < 10 then [digit_char n]
      else string_of_nat (n div 10) @ [digit_char (n mod 10)])"
  by pat_completeness auto
termination
  by (relation "measure (\<lambda>n. n)") auto

declare string_of_nat.simps [simp del]

text \<open>\<open>array.reduce((a, b) => a + b, 0)\<close>.\<close>

definition reduce_sum :: "real list \<Rightarrow> real" where
  "reduce_sum data = foldl (\<lambda>a b. a + b) 0 data"


section \<open>The grid network simulator (networkSimulation)\<close>

datatype Signal = Red | Yellow | Green

datatype Direction = North | East | South | West

datatype Strategy = FixedTime | RuleBased | RLBased

record IntersectionState =
  id_str :: string
  name :: string
  xpos :: nat
  ypos :: nat
  northFlow :: real
  eastFlow :: real
  southFlow :: real
  westFlow :: real
  northQueue :: real
  eastQueue :: real
  southQueue :: real
  westQueue :: real
  northSignal :: Signal
  eastSignal :: Signal
  southSignal :: Signal
  westSignal :: Signal
  totalWaitingTime :: real
  totalThroughput :: real
  efficiency :: jsnum

record NetworkConnection =
  from_id :: string
  to_id :: string
  direction :: Direction
  flowInfluence :: real

record NetworkState =
  intersections :: "IntersectionState list"
  connections :: "NetworkConnection list"
  time :: nat
  totalVehicles :: real
  networkEfficiency :: real
  averageWaitingTime :: real

record SimulationConfig =
  gridSize :: nat
  simulationTime :: nat
  strategy :: Strategy
  trafficIntensity :: real
  incidentEnabled :: bool
  incidentLocation :: "string option"

text \<open>
  \<open>Math.random()\<close> is an input of the model: a function \<open>rnd\<close> gives the value of the
  \<open>k\<close>-th call, counted from the start of the function that is modelled.
\<close>

type_synonym rng = "nat \<Rightarrow> real"

definition intersection_id :: "nat \<Rightarrow> nat \<Rightarrow> string" where
  "intersection_id x y = ''intersection_'' @ string_of_nat x @ ''_'' @ string_of_nat y"

definition newIntersection :: "rng \<Rightarrow> nat \<Rightarrow> nat \<Rightarrow> nat \<Rightarrow> IntersectionState" where
  "newIntersection rnd k x y =
     \<lparr> id_str = intersection_id x y,
       name = ''Intersection ('' @ string_of_nat (x + 1) @ '', '' @ string_of_nat (y + 1) @ '')'',
       xpos = x,
       ypos = y,
       northFlow = rnd (4 * k) * 20,
       eastFlow = rnd (4 * k + 1) * 20,
       southFlow = rnd (4 * k + 2) * 20,
       westFlow = rnd (4 * k + 3) * 20,
       northQueue = 0,
       eastQueue = 0,
       southQueue = 0,
       westQueue = 0,
       northSignal = Red,
       eastSignal = Green,
       southSignal = Red,
       westSignal = Green,
       totalWaitingTime = 0,
       totalThroughput = 0,
       efficiency = Fin 0 \<rparr>"

text \<open>The two nested loops push the intersections column by column; the intersection at
  \<open>(x, y)\<close> is the \<open>(x * gridSize + y)\<close>-th and takes four draws.\<close>

definition initializeNetwork :: "rng \<Rightarrow> nat \<Rightarrow> IntersectionState list" where
  "initializeNetwork rnd g =
     concat (map (\<lambda>x. map (\<lambda>y. newIntersection rnd (x * g + y) x y) [0..<g]) [0..<g])"

definition connectionsAt :: "nat \<Rightarrow> nat \<Rightarrow> nat \<Rightarrow> NetworkConnection list" where
  "connectionsAt g x y =
     (let fromId = intersection_id x y in
      (if 0 < y
       then [\<lparr> from_id = fromId, to_id = intersection_id x (y - 1),
               direction = North, flowInfluence = 3 / 10 \<rparr>]
       else []) @
      (if int x < int g - 1
       then [\<lparr> from_id = fromId, to_id = intersection_id (x + 1) y,
               direction = East, flowInfluence = 3 / 10 \<rparr>]
       else []) @
      (if int y < int g - 1
       then [\<lparr> from_id = fromId, to_id = intersection_id x (y + 1),
               direction = South, flowInfluence = 3 / 10 \<rparr>]
       else []) @
      (if 0 < x
       then [\<lparr> from_id = fromId, to_id = intersection_id (x - 1) y,
               direction = West, flowInfluence = 3 / 10 \<rparr>]
       else []))"

definition createNetworkConnections :: "nat \<Rightarrow> NetworkConnection list" where
  "createNetworkConnections g =
     concat (map (\<lambda>x. concat (map (\<lambda>y. connectionsAt g x y) [0..<g])) [0..<g])"

definition updateSignalStrategy ::
  "IntersectionState \<Rightarrow> Strategy \<Rightarrow> real \<Rightarrow> real \<Rightarrow> IntersectionState" where
  "updateSignalStrategy intersection strat nsQueue ewQueue =
     (let updated = intersection in
      case strat of
        FixedTime \<Rightarrow>
          (let cycle = js_rem \<lfloor>totalWaitingTime intersection / 30\<rfloor> 2 in
           if cycle = 0
           then updated\<lparr> northSignal := Green, southSignal := Green,
                         eastSignal := Red, westSignal := Red \<rparr>
           else updated\<lparr> northSignal := Red, southSignal := Red,
                         eastSignal := Green, westSignal := Green \<rparr>)
      | RuleBased \<Rightarrow>
          (if ewQueue < nsQueue
           then updated\<lparr> northSignal := Green, southSignal := Green,
                         eastSignal := Red, westSignal := Red \<rparr>
           else updated\<lparr> northSignal := Red, southSignal := Red,
                         eastSignal := Green, westSignal := Green \<rparr>)
      | RLBased \<Rightarrow>
          (let totalQueue = northQueue updated + eastQueue updated
                            + southQueue updated + westQueue updated;
               nsRatio = Fin nsQueue / Fin (totalQueue + 1) in
           if Fin (1 / 2) < nsRatio
           then updated\<lparr> northSignal := Green, southSignal := Green,
                         eastSignal := Red, westSignal := Red \<rparr>
           else updated\<lparr> northSignal := Red, southSignal := Red,
                         eastSignal := Green, westSignal := Green \<rparr>))"

text \<open>The four draws \<open>r1 .. r4\<close> are the values of the four calls of \<open>Math.random()\<close>,
  in the order of the source.\<close>

definition simulateIntersectionStep ::
  "real \<Rightarrow> real \<Rightarrow> real \<Rightarrow> real \<Rightarrow> IntersectionState \<Rightarrow> SimulationConfig \<Rightarrow>
   IntersectionState list \<Rightarrow> NetworkConnection list \<Rightarrow> IntersectionState" where
  "simulateIntersectionStep r1 r2 r3 r4 intersection config allIntersections conns =
     (let updated = intersection
            \<lparr> northFlow := northFlow intersection + r1 * trafficIntensity config * 5,
              eastFlow := eastFlow intersection + r2 * trafficIntensity config * 5,
              southFlow := southFlow intersection + r3 * trafficIntensity config * 5,
              westFlow := westFlow intersection + r4 * trafficIntensity config * 5 \<rparr>;
          northCapacity = (if northSignal updated = Green then 8 else 0);
          eastCapacity = (if eastSignal updated = Green then 8 else 0);
          southCapacity = (if southSignal updated = Green then 8 else 0);
          westCapacity = (if westSignal updated = Green then 8 else 0);
          northThrough = min (northQueue updated) northCapacity;
          eastThrough = min (eastQueue updated) eastCapacity;
          southThrough = min (southQueue updated) southCapacity;
          westThrough = min (westQueue updated) westCapacity;
          updated = updated
            \<lparr> northQueue := max 0 (northQueue updated - northThrough),
              eastQueue := max 0 (eastQueue updated - eastThrough),
              southQueue := max 0 (southQueue updated - southThrough),
              westQueue := max 0 (westQueue updated - westThrough) \<rparr>;
          updated = updated
            \<lparr> totalThroughput := totalThroughput updated
                 + (northThrough + eastThrough + southThrough + westThrough) \<rparr>;
          updated = updated
            \<lparr> northQueue := northQueue updated + northFlow updated,
              eastQueue := eastQueue updated + eastFlow updated,
              southQueue := southQueue updated + southFlow updated,
              westQueue := westQueue updated + westFlow updated \<rparr>;
          updated = updated
            \<lparr> totalWaitingTime := totalWaitingTime updated
                 + (northQueue updated + eastQueue updated
                    + southQueue updated + westQueue updated) \<rparr>;
          nsQueue = northQueue updated + southQueue updated;
          ewQueue = eastQueue updated + westQueue updated;
          updated = updateSignalStrategy updated (strategy config) nsQueue ewQueue;
          totalQueue = northQueue updated + eastQueue updated
                       + southQueue updated + westQueue updated
      in updated\<lparr> efficiency := Fin (totalThroughput updated) / Fin (totalQueue + 1) \<rparr>)"

text \<open>\<open>new Map(updated.map((i) => [i.id, i]))\<close>: the objects are held in the list
  \<open>updated\<close> and the map sends an id to the position of its object; where two
  intersections share an id, the later entry replaces the earlier one.\<close>

definition intersectionMap :: "IntersectionState list \<Rightarrow> string \<rightharpoonup> nat" where
  "intersectionMap updated = map_of (rev (zip (map id_str updated) [0..<length updated]))"

text \<open>The body of \<open>connections.forEach\<close>: it mutates the destination object in place,
  so a later connection reads the queues that earlier ones have already raised.\<close>

definition applyConnection ::
  "(string \<rightharpoonup> nat) \<Rightarrow> IntersectionState list \<Rightarrow> NetworkConnection \<Rightarrow> IntersectionState list" where
  "applyConnection imap updated connection =
     (case (imap (from_id connection), imap (to_id connection)) of
        (Some fi, Some ti) \<Rightarrow>
          (let fromIntersection = updated ! fi;
               toIntersection = updated ! ti in
           case direction connection of
             North \<Rightarrow>
               if northSignal fromIntersection = Green
               then updated[ti := toIntersection
                      \<lparr> southQueue := southQueue toIntersection
                          + min (northQueue fromIntersection * flowInfluence connection) 5 \<rparr>]
               else updated
           | East \<Rightarrow>
               if eastSignal fromIntersection = Green
               then updated[ti := toIntersection
                      \<lparr> westQueue := westQueue toIntersection
                          + min (eastQueue fromIntersection * flowInfluence connection) 5 \<rparr>]
               else updated
           | South \<Rightarrow>
               if southSignal fromIntersection = Green
               then updated[ti := toIntersection
                      \<lparr> northQueue := northQueue toIntersection
                          + min (southQueue fromIntersection * flowInfluence connection) 5 \<rparr>]
               else updated
           | West \<Rightarrow>
               if westSignal fromIntersection = Green
               then updated[ti := toIntersection
                      \<lparr> eastQueue := eastQueue toIntersection
                          + min (westQueue fromIntersection * flowInfluence connection) 5 \<rparr>]
               else updated)
      | _ \<Rightarrow> updated)"

definition applyNetworkFlowInfluence ::
  "IntersectionState list \<Rightarrow> NetworkConnection list \<Rightarrow> IntersectionState list" where
  "applyNetworkFlowInfluence ints conns =
     foldl (applyConnection (intersectionMap ints)) ints conns"

definition queueTotal :: "IntersectionState list \<Rightarrow> real" where
  "queueTotal ints =
     foldl (\<lambda>sum i. sum + northQueue i + eastQueue i + southQueue i + westQueue i) 0 ints"

text \<open>The \<open>k\<close>-th intersection of the list takes the draws \<open>4 * k .. 4 * k + 3\<close>.\<close>

definition simulateNetworkStep ::
  "rng \<Rightarrow> NetworkState \<Rightarrow> SimulationConfig \<Rightarrow> NetworkConnection list \<Rightarrow> NetworkState" where
  "simulateNetworkStep rnd state config conns =
     (let stepped = map (\<lambda>(k, intersection).
                      simulateIntersectionStep (rnd (4 * k)) (rnd (4 * k + 1))
                        (rnd (4 * k + 2)) (rnd (4 * k + 3))
                        intersection config (intersections state) conns)
                    (enumerate 0 (intersections state));
          newIntersections = applyNetworkFlowInfluence stepped conns;
          waiting = foldl (\<lambda>sum i. sum + totalWaitingTime i) 0 newIntersections;
          throughput = foldl (\<lambda>sum i. sum + totalThroughput i) 0 newIntersections;
          vehicles = queueTotal newIntersections
      in state
           \<lparr> intersections := newIntersections,
             time := time state + 1,
             totalVehicles := vehicles,
             averageWaitingTime :=
               (if 0 < length newIntersections
                then waiting / real (length newIntersections) else 0),
             networkEfficiency := (if 0 < vehicles then throughput / vehicles else 0) \<rparr>)"

text \<open>The loop of \<open>runNetworkSimulation\<close>: every tick consumes four draws for each
  intersection, so the next tick reads the draws after them.\<close>

fun simulationLoop ::
  "rng \<Rightarrow> nat \<Rightarrow> NetworkState \<Rightarrow> SimulationConfig \<Rightarrow> NetworkConnection list \<Rightarrow> NetworkState list" where
  "simulationLoop rnd 0 state config conns = []"
| "simulationLoop rnd (Suc n) state config conns =
     (let state' = simulateNetworkStep rnd state config conns in
      state' # simulationLoop (\<lambda>k. rnd (k + 4 * length (intersections state))) n
                 state' config conns)"

definition runNetworkSimulation :: "rng \<Rightarrow> SimulationConfig \<Rightarrow> NetworkState list" where
  "runNetworkSimulation rnd config =
     (let ints = initializeNetwork rnd (gridSize config);
          conns = createNetworkConnections (gridSize config);
          state = \<lparr> intersections = ints, connections = conns, time = 0,
                    totalVehicles = 0, networkEfficiency = 0, averageWaitingTime = 0 \<rparr>
      in state # simulationLoop (\<lambda>k. rnd (k + 4 * length ints)) (simulationTime config)
                   state config conns)"

section \<open>Descriptive statistics and tests (statisticalAnalysis)\<close>

text \<open>
  A sample vector is a list of finite numbers. The fields of a result that the source
  computes by dividing by the sample size, which is positive on that path, are real
  numbers; the fields it computes by dividing by a value that can be zero are \<open>jsnum\<close>.
\<close>

record StatisticalResult =
  mean :: real
  median :: real
  stdDev :: real
  variance :: real
  min_val :: real
  max_val :: real
  q1 :: real
  q3 :: real
  iqr :: real
  skewness :: jsnum
  kurtosis :: jsnum

record ConfidenceInterval =
  ci_mean :: real
  lowerBound :: jsnum
  upperBound :: jsnum
  ci_confidenceLevel :: real
  marginOfError :: jsnum

record HypothesisTestResult =
  testName :: string
  testStatistic :: jsnum
  pValue :: jsnum
  isSignificant :: bool
  conclusion :: string
  confidenceLevel :: real

text \<open>\<open>calculatePercentile\<close> is called on the sorted copy of a non-empty vector only;
  there \<open>0 \<le> index \<le> length - 1\<close>, so both reads are in range and \<open>index % 1\<close> is the
  fractional part.\<close>

definition calculatePercentile :: "real list \<Rightarrow> real \<Rightarrow> real" where
  "calculatePercentile sortedData percentile =
     (let index = (percentile / 100) * (real (length sortedData) - 1);
          lower = \<lfloor>index\<rfloor>;
          upper = \<lceil>index\<rceil>;
          weight = frac index in
      if lower = upper then sortedData ! nat lower
      else sortedData ! nat lower * (1 - weight) + sortedData ! nat upper * weight)"

definition calculateBasicStats :: "real list \<Rightarrow> StatisticalResult" where
  "calculateBasicStats data =
     (if length data = 0
      then \<lparr> mean = 0, median = 0, stdDev = 0, variance = 0, min_val = 0, max_val = 0,
             q1 = 0, q3 = 0, iqr = 0, skewness = Fin 0, kurtosis = Fin 0 \<rparr>
      else
        (let sorted = sort data;
             n = length data;
             mean' = reduce_sum data / real n;
             median' = (if n mod 2 = 0
                        then (sorted ! (n div 2 - 1) + sorted ! (n div 2)) / 2
                        else sorted ! (n div 2));
             variance' = foldl (\<lambda>sum val. sum + (val - mean') ^ 2) 0 data / real n;
             stdDev' = sqrt variance';
             min' = sorted ! 0;
             max' = sorted ! (n - 1);
             q1' = calculatePercentile sorted 25;
             q3' = calculatePercentile sorted 75;
             iqr' = q3' - q1';
             skewness' = Fin (foldl (\<lambda>sum val. sum + (val - mean') ^ 3) 0 data)
                         / Fin (real n * stdDev' ^ 3);
             kurtosis' = Fin (foldl (\<lambda>sum val. sum + (val - mean') ^ 4) 0 data)
                         / Fin (real n * stdDev' ^ 4) - Fin 3
         in \<lparr> mean = mean', median = median', stdDev = stdDev', variance = variance',
              min_val = min', max_val = max', q1 = q1', q3 = q3', iqr = iqr',
              skewness = skewness', kurtosis = kurtosis' \<rparr>))"

text \<open>The table \<open>zScores\<close> has the keys 0.9, 0.95 and 0.99; every other level falls
  back to 1.96.\<close>

definition getZScore :: "real \<Rightarrow> real" where
  "getZScore level =
     (if level = 9 / 10 then 1645 / 1000
      else if level = 95 / 100 then 196 / 100
      else if level = 99 / 100 then 2576 / 1000
      else 196 / 100)"

definition calculateConfidenceInterval :: "real list \<Rightarrow> real \<Rightarrow> ConfidenceInterval" where
  "calculateConfidenceInterval data level =
     (let stats = calculateBasicStats data;
          n = length data;
          se = Fin (stdDev stats) / js_sqrt (Fin (real n));
          zScore = getZScore level;
          margin = Fin zScore * se
      in \<lparr> ci_mean = mean stats,
           lowerBound = Fin (mean stats) - margin,
           upperBound = Fin (mean stats) + margin,
           ci_confidenceLevel = level,
           marginOfError = margin \<rparr>)"

text \<open>The loop of \<open>incompleteBeta\<close>; it returns the last value of \<open>f\<close>. The variable
  \<open>c\<close> of the source is never read.\<close>

function incompleteBetaLoop ::
  "jsnum \<Rightarrow> jsnum \<Rightarrow> jsnum \<Rightarrow> jsnum \<Rightarrow> jsnum \<Rightarrow> nat \<Rightarrow> jsnum" where
  "incompleteBetaLoop x a b f d i =
     (if Fin (1 / 10 ^ 10) < abs (f - d) \<and> i < 100
      then
        (let d' = f;
             m = Fin (real i / 2);
             numerator = (m * (b - m) * x) / ((a + Fin 2 * m) * (a + Fin 2 * m + Fin 1));
             f' = Fin 1 + numerator / f;
             numerator' = - ((a + m) * (a + b + m) * x)
                          / ((a + Fin 2 * m + Fin 1) * (a + Fin 2 * m + Fin 2));
             f'' = Fin 1 + numerator' / f'
         in incompleteBetaLoop x a b f'' d' (Suc i))
      else f)"
  by pat_completeness auto
termination
  by (relation "measure (\<lambda>(x, a, b, f, d, i). 100 - i)") auto

declare incompleteBetaLoop.simps [simp del]

definition incompleteBeta :: "jsnum \<Rightarrow> jsnum \<Rightarrow> jsnum \<Rightarrow> jsnum" where
  "incompleteBeta x a b =
     (if x < Fin 0 \<or> Fin 1 < x then (if x < Fin 0 then Fin 0 else Fin 1)
      else
        (let front = js_exp (a * js_log x + b * js_log (Fin 1 - x));
             f = incompleteBetaLoop x a b (Fin 1) (Fin 0) 0
         in front / a / f))"

definition tCDF :: "jsnum \<Rightarrow> jsnum \<Rightarrow> jsnum" where
  "tCDF t df = (let x = df / (df + t * t) in incompleteBeta x (df / Fin 2) (Fin (1 / 2)) / Fin 2)"

definition fCDF :: "jsnum \<Rightarrow> jsnum \<Rightarrow> jsnum \<Rightarrow> jsnum" where
  "fCDF f df1 df2 =
     (let x = (df1 * f) / (df1 * f + df2) in incompleteBeta x (df1 / Fin 2) (df2 / Fin 2))"

definition chiSquareCDF :: "jsnum \<Rightarrow> jsnum \<Rightarrow> jsnum" where
  "chiSquareCDF x df = incompleteBeta (x / Fin 2) (df / Fin 2) (Fin (1 / 2))"

definition independentTTest :: "real list \<Rightarrow> real list \<Rightarrow> real \<Rightarrow> HypothesisTestResult" where
  "independentTTest data1 data2 level =
     (let stats1 = calculateBasicStats data1;
          stats2 = calculateBasicStats data2;
          n1 = Fin (real (length data1));
          n2 = Fin (real (length data2));
          se = js_sqrt (Fin (variance stats1) / n1 + Fin (variance stats2) / n2);
          tStatistic = Fin (mean stats1 - mean stats2) / se;
          df = js_pow (Fin (variance stats1) / n1 + Fin (variance stats2) / n2) 2
               / (js_pow (Fin (variance stats1) / n1) 2 / (n1 - Fin 1)
                  + js_pow (Fin (variance stats2) / n2) 2 / (n2 - Fin 1));
          pValue' = Fin 2 * (Fin 1 - tCDF (abs tStatistic) df);
          isSignificant' = (pValue' < Fin (1 - level))
      in \<lparr> testName = ''Independent T-Test'',
           testStatistic = tStatistic,
           pValue = pValue',
           isSignificant = isSignificant',
           conclusion = (if isSignificant'
                         then ''The difference between strategies is statistically significant''
                         else ''No significant difference between strategies''),
           confidenceLevel = level \<rparr>)"


section \<open>The dashboard's own t-test and sample generator (HypothesisTests, StatisticalAnalysis)\<close>


datatype Compass = CompassN | CompassE | CompassS | CompassW


text \<open>The record \<open>TTestResult\<close> without its \<open>interpretation\<close> text.\<close>

record TTestResult =
  t_statistic :: jsnum
  p_value :: jsnum
  degrees_freedom :: jsnum
  significant :: bool
  effect_size :: jsnum









definition ht_mean :: "real list \<Rightarrow> jsnum" where
  "ht_mean data = Fin (reduce_sum data) / Fin (real (length data))"

definition ht_variance :: "real list \<Rightarrow> jsnum" where
  "ht_variance data =
     (let m = ht_mean data in
      foldl (\<lambda>sum val. sum + js_pow (Fin val - m) 2) (Fin 0) data
        / Fin (real (length data) - 1))"

definition erf :: "jsnum \<Rightarrow> jsnum" where
  "erf x0 =
     (let a1 = Fin (254829592 / 10 ^ 9);
          a2 = Fin (- 284496736 / 10 ^ 9);
          a3 = Fin (1421413741 / 10 ^ 9);
          a4 = Fin (- 1453152027 / 10 ^ 9);
          a5 = Fin (1061405429 / 10 ^ 9);
          p = Fin (3275911 / 10 ^ 7);
          sign = (if x0 < Fin 0 then Fin (- 1) else Fin 1);
          x = abs x0;
          t = Fin 1 / (Fin 1 + p * x);
          y = Fin 1 - (((((a5 * t + a4) * t) + a3) * t + a2) * t + a1) * t * js_exp (- x * x)
      in sign * y)"

definition tDistributionCDF :: "jsnum \<Rightarrow> jsnum \<Rightarrow> jsnum" where
  "tDistributionCDF t df =
     (let absT = abs t in
      if Fin 30 < df
      then Fin (1 / 2) * (Fin 1 + erf (absT / js_sqrt (Fin 2)))
      else Fin (1 / 2) + Fin (1 / 2) * js_tanh (absT / js_sqrt (df + Fin 1)))"

definition performTTest :: "real list \<Rightarrow> real list \<Rightarrow> TTestResult" where
  "performTTest sample1 sample2 =
     (let n1 = Fin (real (length sample1));
          n2 = Fin (real (length sample2));
          m1 = ht_mean sample1;
          m2 = ht_mean sample2;
          v1 = ht_variance sample1;
          v2 = ht_variance sample2;
          se = js_sqrt ((v1 / n1) + (v2 / n2));
          t = (m1 - m2) / se;
          df = js_pow (v1 / n1 + v2 / n2) 2
               / (js_pow (v1 / n1) 2 / (n1 - Fin 1) + js_pow (v2 / n2) 2 / (n2 - Fin 1));
          p = Fin 2 * (Fin 1 - tDistributionCDF (abs t) df);
          pooled_std = js_sqrt (((n1 - Fin 1) * v1 + (n2 - Fin 1) * v2) / (n1 + n2 - Fin 2));
          effect = abs ((m1 - m2) / pooled_std)
      in \<lparr> t_statistic = js_round (t * Fin 1000) / Fin 1000,
           p_value = js_round (p * Fin 10000) / Fin 10000,
           degrees_freedom = js_round df,
           significant = (p < Fin (5 / 100)),
           effect_size = js_round (effect * Fin 1000) / Fin 1000 \<rparr>)"


section \<open>Vocabulary of the properties\<close>

text \<open>The queue and the signal of an intersection in a direction, the opposite direction,
  and the amount one connection carries: \<open>min (queue * flowInfluence) 5\<close> of the source's
  queue in the connection's direction while the source's signal in that direction is
  green.\<close>

definition queueOf :: "Direction \<Rightarrow> IntersectionState \<Rightarrow> real" where
  "queueOf d i = (case d of North \<Rightarrow> northQueue i | East \<Rightarrow> eastQueue i
                  | South \<Rightarrow> southQueue i | West \<Rightarrow> westQueue i)"

definition signalOf :: "Direction \<Rightarrow> IntersectionState \<Rightarrow> Signal" where
  "signalOf d i = (case d of North \<Rightarrow> northSignal i | East \<Rightarrow> eastSignal i
                  | South \<Rightarrow> southSignal i | West \<Rightarrow> westSignal i)"

definition opposite :: "Direction \<Rightarrow> Direction" where
  "opposite d = (case d of North \<Rightarrow> South | East \<Rightarrow> West | South \<Rightarrow> North | West \<Rightarrow> East)"

definition addToQueue :: "Direction \<Rightarrow> real \<Rightarrow> IntersectionState \<Rightarrow> IntersectionState" where
  "addToQueue d a i =
     (case d of North \<Rightarrow> i\<lparr> northQueue := northQueue i + a \<rparr>
      | East \<Rightarrow> i\<lparr> eastQueue := eastQueue i + a \<rparr>
      | South \<Rightarrow> i\<lparr> southQueue := southQueue i + a \<rparr>
      | West \<Rightarrow> i\<lparr> westQueue := westQueue i + a \<rparr>)"

definition propagated :: "NetworkConnection \<Rightarrow> IntersectionState \<Rightarrow> real" where
  "propagated c src =
     (if signalOf (direction c) src = Green
      then min (queueOf (direction c) src * flowInfluence c) 5 else 0)"


text \<open>Everything of an intersection but its four queues.\<close>

definition otherFields ::
  "IntersectionState \<Rightarrow>
   string \<times> string \<times> nat \<times> nat \<times> (real \<times> real \<times> real \<times> real)
   \<times> (Signal \<times> Signal \<times> Signal \<times> Signal) \<times> real \<times> real \<times> jsnum" where
  "otherFields i =
     (id_str i, name i, xpos i, ypos i,
      (northFlow i, eastFlow i, southFlow i, westFlow i),
      (northSignal i, eastSignal i, southSignal i, westSignal i),
      totalWaitingTime i, totalThroughput i, efficiency i)"

definition queueSum :: "IntersectionState \<Rightarrow> real" where
  "queueSum i = northQueue i + eastQueue i + southQueue i + westQueue i"

definition queuesNonneg :: "IntersectionState \<Rightarrow> bool" where
  "queuesNonneg i =
     (0 \<le> northQueue i \<and> 0 \<le> eastQueue i \<and> 0 \<le> southQueue i \<and> 0 \<le> westQueue i)"

definition flowsNonneg :: "IntersectionState \<Rightarrow> bool" where
  "flowsNonneg i =
     (0 \<le> northFlow i \<and> 0 \<le> eastFlow i \<and> 0 \<le> southFlow i \<and> 0 \<le> westFlow i)"

definition queuesLe :: "IntersectionState \<Rightarrow> IntersectionState \<Rightarrow> bool" where
  "queuesLe i j =
     (northQueue i \<le> northQueue j \<and> eastQueue i \<le> eastQueue j
      \<and> southQueue i \<le> southQueue j \<and> westQueue i \<le> westQueue j)"


text \<open>A state of the network whose queues and vehicle count are all non-negative.\<close>

definition stateOk :: "NetworkState \<Rightarrow> bool" where
  "stateOk s = (list_all queuesNonneg (intersections s) \<and> 0 \<le> totalVehicles s)"

text \<open>The unordered pairs of intersections joined by some connection.\<close>

definition adjacencyPairs :: "NetworkConnection list \<Rightarrow> string set set" where
  "adjacencyPairs conns = (\<lambda>c. {from_id c, to_id c}) ` set conns"




definition exampleConfig :: "Strategy \<Rightarrow> real \<Rightarrow> SimulationConfig" where
  "exampleConfig strat intensity =
     \<lparr> gridSize = 2, simulationTime = 1, strategy = strat, trafficIntensity = intensity,
       incidentEnabled = False, incidentLocation = None \<rparr>"


text \<open>The four signals of an intersection, in the order north, south, east, west.\<close>

definition signalsOf :: "IntersectionState \<Rightarrow> Signal \<times> Signal \<times> Signal \<times> Signal" where
  "signalsOf i = (northSignal i, southSignal i, eastSignal i, westSignal i)"

text \<open>One pass of the loop of \<open>incompleteBeta\<close> for \<open>a = 1\<close> and \<open>b = 1/2\<close>, on real
  numbers: the new \<open>f\<close> from the old one at iteration \<open>i\<close>, where the second numerator
  is \<open>- x / 4\<close> at every iteration.\<close>

definition betaStep :: "real \<Rightarrow> real \<Rightarrow> nat \<Rightarrow> real" where
  "betaStep x f i =
     1 - (x / 4) / (1 + (real i / 2 * (1 / 2 - real i / 2) * x
                          / ((1 + 2 * (real i / 2)) * (1 + 2 * (real i / 2) + 1))) / f)"




section \<open>Properties of the grid network\<close>

subsection \<open>The connections of a grid\<close>

lemma length_connectionsAt:
  "length (connectionsAt g x y) =
     (if 0 < y then 1 else 0) + (if int x < int g - 1 then 1 else 0)
     + (if int y < int g - 1 then 1 else 0) + (if 0 < x then 1 else 0)"
  by (simp add: connectionsAt_def Let_def)

lemma count_pos: "(\<Sum>y = 0..<g. if 0 < y then 1 else 0) = g - (1::nat)"
  by (induction g) auto

lemma count_below:
  "(\<Sum>y = 0..<n. if int y < int g - 1 then 1 else 0) = min n (g - (1::nat))"
  by (induction n) auto

lemma length_createNetworkConnections:
  "length (createNetworkConnections g) = 2 * g * (g - 1) * 2"
proof -
  let ?N = "\<lambda>(x::nat) (y::nat). if 0 < y then 1 else (0::nat)"
  let ?E = "\<lambda>(x::nat) (y::nat). if int x < int g - 1 then 1 else (0::nat)"
  let ?S = "\<lambda>(x::nat) (y::nat). if int y < int g - 1 then 1 else (0::nat)"
  let ?W = "\<lambda>(x::nat) (y::nat). if 0 < x then 1 else (0::nat)"
  have n: "(\<Sum>x = 0..<g. \<Sum>y = 0..<g. ?N x y) = g * (g - 1)"
    by (simp add: count_pos)
  have s: "(\<Sum>x = 0..<g. \<Sum>y = 0..<g. ?S x y) = g * (g - 1)"
    by (simp add: count_below)
  have e: "(\<Sum>x = 0..<g. \<Sum>y = 0..<g. ?E x y) = g * (g - 1)"
    using count_below [of g g] by (simp add: sum_distrib_left [symmetric] mult.commute)
  have w: "(\<Sum>x = 0..<g. \<Sum>y = 0..<g. ?W x y) = g * (g - 1)"
    using count_pos [of g] by (simp add: sum_distrib_left [symmetric] mult.commute)
  have "length (createNetworkConnections g) =
      (\<Sum>x = 0..<g. \<Sum>y = 0..<g. length (connectionsAt g x y))"
    by (simp add: createNetworkConnections_def length_concat comp_def
        interv_sum_list_conv_sum_set_nat)
  also have "\<dots> =
      (\<Sum>x = 0..<g. \<Sum>y = 0..<g. ?N x y) + (\<Sum>x = 0..<g. \<Sum>y = 0..<g. ?E x y)
      + (\<Sum>x = 0..<g. \<Sum>y = 0..<g. ?S x y) + (\<Sum>x = 0..<g. \<Sum>y = 0..<g. ?W x y)"
    unfolding length_connectionsAt sum.distrib ..
  also have "\<dots> = g * (g - 1) + g * (g - 1) + g * (g - 1) + g * (g - 1)"
    unfolding n e s w ..
  finally show ?thesis by simp
qed

lemma createNetworkConnections_2:
  "createNetworkConnections 2 =
    [\<lparr>from_id = ''intersection_0_0'', to_id = ''intersection_1_0'',
        direction = East, flowInfluence = 3 / 10\<rparr>,
     \<lparr>from_id = ''intersection_0_0'', to_id = ''intersection_0_1'',
        direction = South, flowInfluence = 3 / 10\<rparr>,
     \<lparr>from_id = ''intersection_0_1'', to_id = ''intersection_0_0'',
        direction = North, flowInfluence = 3 / 10\<rparr>,
     \<lparr>from_id = ''intersection_0_1'', to_id = ''intersection_1_1'',
        direction = East, flowInfluence = 3 / 10\<rparr>,
     \<lparr>from_id = ''intersection_1_0'', to_id = ''intersection_1_1'',
        direction = South, flowInfluence = 3 / 10\<rparr>,
     \<lparr>from_id = ''intersection_1_0'', to_id = ''intersection_0_0'',
        direction = West, flowInfluence = 3 / 10\<rparr>,
     \<lparr>from_id = ''intersection_1_1'', to_id = ''intersection_1_0'',
        direction = North, flowInfluence = 3 / 10\<rparr>,
     \<lparr>from_id = ''intersection_1_1'', to_id = ''intersection_0_1'',
        direction = West, flowInfluence = 3 / 10\<rparr>]"
  by (simp add: createNetworkConnections_def connectionsAt_def Let_def intersection_id_def
      string_of_nat.simps digit_char_def upt_rec)

text \<open>
  Claim C6. For every grid size \<open>g\<close> (so for 2, 3 and 4), \<open>createNetworkConnections g\<close>
  returns exactly \<open>2 * g * (g - 1) * 2\<close> directed connections. For \<open>g = 2\<close> these are
  8 directed edges: every edge has its reverse in the list, and together they join 4
  unordered pairs of intersections.
\<close>

theorem createNetworkConnections_count:
  "length (createNetworkConnections g) = 2 * g * (g - 1) * 2
   \<and> length (createNetworkConnections 2) = 8
   \<and> set (map (\<lambda>c. (to_id c, from_id c)) (createNetworkConnections 2))
       = set (map (\<lambda>c. (from_id c, to_id c)) (createNetworkConnections 2))
   \<and> card (adjacencyPairs (createNetworkConnections 2)) = 4"
proof -
  have "length (createNetworkConnections 2) = 8"
    by (simp add: length_createNetworkConnections)
  moreover have "set (map (\<lambda>c. (to_id c, from_id c)) (createNetworkConnections 2))
       = set (map (\<lambda>c. (from_id c, to_id c)) (createNetworkConnections 2))"
    unfolding createNetworkConnections_2 by (simp add: insert_commute)
  moreover have "card (adjacencyPairs (createNetworkConnections 2)) = 4"
    unfolding createNetworkConnections_2 adjacencyPairs_def
    by (simp add: insert_commute doubleton_eq_iff)
  ultimately show ?thesis
    using length_createNetworkConnections [of g] by blast
qed

subsection \<open>Queues, ticks and the flow-propagation pass\<close>

lemma addToQueue_zero [simp]: "addToQueue d 0 i = i"
  by (cases d) (simp_all add: addToQueue_def)

lemma otherFields_addToQueue [simp]: "otherFields (addToQueue d a i) = otherFields i"
  by (cases d) (simp_all add: addToQueue_def otherFields_def)

lemma queueSum_addToQueue [simp]: "queueSum (addToQueue d a i) = queueSum i + a"
  by (cases d) (simp_all add: addToQueue_def queueSum_def)


lemma queuesNonneg_addToQueue: "0 \<le> a \<Longrightarrow> queuesNonneg i \<Longrightarrow> queuesNonneg (addToQueue d a i)"
  by (cases d) (simp_all add: addToQueue_def queuesNonneg_def)

lemma flowsNonneg_addToQueue [simp]: "flowsNonneg (addToQueue d a i) = flowsNonneg i"
  by (cases d) (simp_all add: addToQueue_def flowsNonneg_def)

lemma applyConnection_found:
  "imap (from_id c) = Some fi \<Longrightarrow> imap (to_id c) = Some ti \<Longrightarrow>
   applyConnection imap updated c =
     updated[ti := addToQueue (opposite (direction c)) (propagated c (updated ! fi)) (updated ! ti)]"
  by (cases "direction c")
     (simp_all add: applyConnection_def Let_def propagated_def signalOf_def queueOf_def
        opposite_def addToQueue_def)

lemma applyConnection_missing:
  "imap (from_id c) = None \<or> imap (to_id c) = None \<Longrightarrow> applyConnection imap updated c = updated"
  by (auto simp: applyConnection_def split: option.splits)

lemma length_applyConnection [simp]: "length (applyConnection imap updated c) = length updated"
  by (cases "imap (from_id c)"; cases "imap (to_id c)")
     (simp_all add: applyConnection_found applyConnection_missing)

lemma otherFields_applyConnection:
  "map otherFields (applyConnection imap updated c) = map otherFields updated"
proof (cases "imap (from_id c)"; cases "imap (to_id c)")
  fix fi ti assume a: "imap (from_id c) = Some fi" "imap (to_id c) = Some ti"
  show ?thesis
    by (cases "ti < length updated")
       (simp_all add: applyConnection_found [OF a] map_update list_update_same_conv
          list_update_beyond)
qed (simp_all add: applyConnection_missing)

lemma list_all_update:
  "list_all P xs \<Longrightarrow> (k < length xs \<Longrightarrow> P v) \<Longrightarrow> list_all P (xs[k := v])"
  by (cases "k < length xs") (auto simp: list_all_length nth_list_update list_update_beyond)


lemma propagated_nonneg:
  "queuesNonneg src \<Longrightarrow> 0 \<le> flowInfluence c \<Longrightarrow> 0 \<le> propagated c src"
  by (cases "direction c") (simp_all add: propagated_def queueOf_def queuesNonneg_def)

lemma queuesLe_refl [simp]: "queuesLe i i"
  by (simp add: queuesLe_def)


lemma applyConnection_nonneg:
  assumes "list_all queuesNonneg updated" and "0 \<le> flowInfluence c"
    and "\<And>k i. imap k = Some i \<Longrightarrow> i < length updated"
  shows "list_all queuesNonneg (applyConnection imap updated c)"
proof (cases "imap (from_id c)"; cases "imap (to_id c)")
  fix fi ti assume a: "imap (from_id c) = Some fi" "imap (to_id c) = Some ti"
  have "fi < length updated" using a assms(3) by blast
  then have "queuesNonneg (updated ! fi)" using assms(1) by (simp add: list_all_length)
  then have p: "0 \<le> propagated c (updated ! fi)" using assms(2) by (rule propagated_nonneg)
  show ?thesis
    unfolding applyConnection_found [OF a]
    using assms(1) p by (intro list_all_update) (auto simp: list_all_length intro: queuesNonneg_addToQueue)
qed (use assms in \<open>simp_all add: applyConnection_missing\<close>)


lemma intersectionMap_bound: "intersectionMap ints k = Some i \<Longrightarrow> i < length ints"
  unfolding intersectionMap_def
  by (auto dest!: map_of_SomeD simp: in_set_zip)


lemma foldl_applyConnection_length [simp]:
  "length (foldl (applyConnection imap) xs conns) = length xs"
  by (induction conns arbitrary: xs) simp_all

lemma foldl_applyConnection_frame:
  "map otherFields (foldl (applyConnection imap) xs conns) = map otherFields xs"
  by (induction conns arbitrary: xs) (simp_all add: otherFields_applyConnection)


lemma foldl_applyConnection_nonneg:
  assumes "list_all queuesNonneg xs" and "list_all (\<lambda>c. 0 \<le> flowInfluence c) conns"
    and "\<And>k i. imap k = Some i \<Longrightarrow> i < length xs"
  shows "list_all queuesNonneg (foldl (applyConnection imap) xs conns)"
  using assms
proof (induction conns arbitrary: xs)
  case Nil
  then show ?case by simp
next
  case (Cons c cs)
  have "list_all queuesNonneg (applyConnection imap xs c)"
    using Cons.prems by (intro applyConnection_nonneg) simp_all
  then show ?case
    using Cons.prems by (simp add: Cons.IH)
qed


lemma queueTotal_sum_list: "queueTotal ints = sum_list (map queueSum ints)"
proof -
  have "foldl (\<lambda>sum i. sum + northQueue i + eastQueue i + southQueue i + westQueue i) a ints
        = a + sum_list (map queueSum ints)" for a
    by (induction ints arbitrary: a) (simp_all add: queueSum_def)
  then show ?thesis by (simp add: queueTotal_def)
qed



lemma queueTotal_nonneg: "list_all queuesNonneg xs \<Longrightarrow> 0 \<le> queueTotal xs"
  unfolding queueTotal_sum_list
  by (induction xs) (simp_all add: queuesNonneg_def queueSum_def)







lemma updateSignalStrategy_queues [simp]:
  "northQueue (updateSignalStrategy i s a b) = northQueue i"
  "eastQueue (updateSignalStrategy i s a b) = eastQueue i"
  "southQueue (updateSignalStrategy i s a b) = southQueue i"
  "westQueue (updateSignalStrategy i s a b) = westQueue i"
  by (simp_all add: updateSignalStrategy_def Let_def split: Strategy.splits)

lemma updateSignalStrategy_flows [simp]:
  "northFlow (updateSignalStrategy i s a b) = northFlow i"
  "eastFlow (updateSignalStrategy i s a b) = eastFlow i"
  "southFlow (updateSignalStrategy i s a b) = southFlow i"
  "westFlow (updateSignalStrategy i s a b) = westFlow i"
  by (simp_all add: updateSignalStrategy_def Let_def split: Strategy.splits)

lemma simulateIntersectionStep_flows:
  "northFlow (simulateIntersectionStep r1 r2 r3 r4 i config a conns)
     = northFlow i + r1 * trafficIntensity config * 5"
  "eastFlow (simulateIntersectionStep r1 r2 r3 r4 i config a conns)
     = eastFlow i + r2 * trafficIntensity config * 5"
  "southFlow (simulateIntersectionStep r1 r2 r3 r4 i config a conns)
     = southFlow i + r3 * trafficIntensity config * 5"
  "westFlow (simulateIntersectionStep r1 r2 r3 r4 i config a conns)
     = westFlow i + r4 * trafficIntensity config * 5"
  by (simp_all add: simulateIntersectionStep_def Let_def)

lemma simulateIntersectionStep_queues:
  "northQueue (simulateIntersectionStep r1 r2 r3 r4 i config a conns)
     = max 0 (northQueue i - min (northQueue i) (if northSignal i = Green then 8 else 0))
       + (northFlow i + r1 * trafficIntensity config * 5)"
  "eastQueue (simulateIntersectionStep r1 r2 r3 r4 i config a conns)
     = max 0 (eastQueue i - min (eastQueue i) (if eastSignal i = Green then 8 else 0))
       + (eastFlow i + r2 * trafficIntensity config * 5)"
  "southQueue (simulateIntersectionStep r1 r2 r3 r4 i config a conns)
     = max 0 (southQueue i - min (southQueue i) (if southSignal i = Green then 8 else 0))
       + (southFlow i + r3 * trafficIntensity config * 5)"
  "westQueue (simulateIntersectionStep r1 r2 r3 r4 i config a conns)
     = max 0 (westQueue i - min (westQueue i) (if westSignal i = Green then 8 else 0))
       + (westFlow i + r4 * trafficIntensity config * 5)"
  by (simp_all add: simulateIntersectionStep_def Let_def)

lemma simulateIntersectionStep_nonneg:
  assumes "flowsNonneg i" and "0 \<le> r1" "0 \<le> r2" "0 \<le> r3" "0 \<le> r4"
    and "0 \<le> trafficIntensity config"
  shows "flowsNonneg (simulateIntersectionStep r1 r2 r3 r4 i config a conns)"
    and "queuesNonneg (simulateIntersectionStep r1 r2 r3 r4 i config a conns)"
  using assms
  by (simp_all add: flowsNonneg_def queuesNonneg_def simulateIntersectionStep_flows
      simulateIntersectionStep_queues add_nonneg_nonneg)

lemma flowsNonneg_otherFields:
  "otherFields i = otherFields j \<Longrightarrow> flowsNonneg i = flowsNonneg j"
  by (simp add: otherFields_def flowsNonneg_def)

lemma list_all_flowsNonneg_frame:
  assumes "map otherFields ys = map otherFields xs" and "list_all flowsNonneg xs"
  shows "list_all flowsNonneg ys"
proof -
  have len: "length ys = length xs" using assms(1) by (rule map_eq_imp_length_eq)
  have "flowsNonneg (ys ! k)" if "k < length ys" for k
  proof -
    have "otherFields (ys ! k) = otherFields (xs ! k)"
      using arg_cong [OF assms(1), of "\<lambda>l. l ! k"] that len by simp
    moreover have "flowsNonneg (xs ! k)" using assms(2) that len by (simp add: list_all_length)
    ultimately show ?thesis using flowsNonneg_otherFields [of "ys ! k" "xs ! k"] by simp
  qed
  then show ?thesis by (simp add: list_all_length)
qed

lemma simulateNetworkStep_ok:
  assumes "list_all flowsNonneg (intersections state)" and "\<And>k. 0 \<le> rnd k"
    and "0 \<le> trafficIntensity config" and "list_all (\<lambda>c. 0 \<le> flowInfluence c) conns"
  shows "stateOk (simulateNetworkStep rnd state config conns)"
    and "list_all flowsNonneg (intersections (simulateNetworkStep rnd state config conns))"
    and "length (intersections (simulateNetworkStep rnd state config conns))
           = length (intersections state)"
proof -
  let ?stepped = "map (\<lambda>(k, intersection).
                      simulateIntersectionStep (rnd (4 * k)) (rnd (4 * k + 1))
                        (rnd (4 * k + 2)) (rnd (4 * k + 3))
                        intersection config (intersections state) conns)
                    (enumerate 0 (intersections state))"
  let ?new = "applyNetworkFlowInfluence ?stepped conns"
  have new: "intersections (simulateNetworkStep rnd state config conns) = ?new"
    and veh: "totalVehicles (simulateNetworkStep rnd state config conns) = queueTotal ?new"
    by (simp_all add: simulateNetworkStep_def Let_def)
  have sq: "list_all queuesNonneg ?stepped" and sf: "list_all flowsNonneg ?stepped"
    using assms(1,2,3)
    by (auto simp: list_all_iff in_set_enumerate_eq intro!: simulateIntersectionStep_nonneg)
  have q: "list_all queuesNonneg ?new"
    unfolding applyNetworkFlowInfluence_def
    using sq assms(4) by (intro foldl_applyConnection_nonneg) (auto dest: intersectionMap_bound)
  have f: "list_all flowsNonneg ?new"
    unfolding applyNetworkFlowInfluence_def
    using foldl_applyConnection_frame sf by (rule list_all_flowsNonneg_frame)
  show "stateOk (simulateNetworkStep rnd state config conns)"
    unfolding stateOk_def new veh using q by (simp add: queueTotal_nonneg)
  show "list_all flowsNonneg (intersections (simulateNetworkStep rnd state config conns))"
    unfolding new by (rule f)
  show "length (intersections (simulateNetworkStep rnd state config conns))
           = length (intersections state)"
    unfolding new by (simp add: applyNetworkFlowInfluence_def)
qed

lemma simulationLoop_ok:
  assumes "list_all flowsNonneg (intersections state)" and "\<And>k. 0 \<le> rnd k"
    and "0 \<le> trafficIntensity config" and "list_all (\<lambda>c. 0 \<le> flowInfluence c) conns"
  shows "list_all stateOk (simulationLoop rnd n state config conns)"
  using assms
proof (induction n arbitrary: rnd state)
  case 0
  then show ?case by simp
next
  case (Suc n)
  let ?s = "simulateNetworkStep rnd state config conns"
  have "stateOk ?s" and "list_all flowsNonneg (intersections ?s)"
    using Suc.prems by (simp_all add: simulateNetworkStep_ok)
  moreover have "list_all stateOk
      (simulationLoop (\<lambda>k. rnd (k + 4 * length (intersections state))) n ?s config conns)"
    using \<open>list_all flowsNonneg (intersections ?s)\<close> Suc.prems by (intro Suc.IH) simp_all
  ultimately show ?case by (simp add: Let_def)
qed

lemma createNetworkConnections_flowInfluence:
  "list_all (\<lambda>c. flowInfluence c = 3 / 10) (createNetworkConnections g)"
  by (auto simp: list_all_iff createNetworkConnections_def connectionsAt_def Let_def
      split: if_splits)

lemma initializeNetwork_ok:
  assumes "\<And>k. 0 \<le> rnd k"
  shows "list_all flowsNonneg (initializeNetwork rnd g)"
    and "list_all queuesNonneg (initializeNetwork rnd g)"
  using assms
  by (auto simp: list_all_iff initializeNetwork_def newIntersection_def flowsNonneg_def
      queuesNonneg_def)





text \<open>
  Claim C2. In every state of a run of the simulator, started from the initialized
  network and advanced by \<open>simulateNetworkStep\<close>, all four queues of every intersection
  are non-negative, and so is \<open>totalVehicles\<close>. It holds for every grid size (2, 3 and 4
  among them), every strategy, every number of ticks and every traffic intensity that is
  not negative (the interval from 0 to 1 among them); \<open>Math.random()\<close> never returns a
  negative number.
\<close>

theorem queues_never_negative:
  assumes "\<forall>k. 0 \<le> rnd k" and "0 \<le> trafficIntensity config"
  shows "list_all stateOk (runNetworkSimulation rnd config)"
proof -
  have r: "0 \<le> rnd k" for k using assms(1) by simp
  have c: "list_all (\<lambda>c. 0 \<le> flowInfluence c) (createNetworkConnections (gridSize config))"
    by (rule list.pred_mono_strong [OF createNetworkConnections_flowInfluence]) simp
  show ?thesis
    unfolding runNetworkSimulation_def Let_def
    using r c assms(2) initializeNetwork_ok [of rnd "gridSize config"]
    by (simp add: stateOk_def simulationLoop_ok)
qed

theorem queues_never_negative_witness:
  "(\<forall>k. (0::real) \<le> (\<lambda>k. 1 / 2) k)
   \<and> 0 \<le> trafficIntensity (exampleConfig RLBased (1 / 2))
   \<and> list_all stateOk (runNetworkSimulation (\<lambda>k. 1 / 2) (exampleConfig RLBased (1 / 2)))"
  using queues_never_negative [of "\<lambda>k. 1 / 2" "exampleConfig RLBased (1 / 2)"]
  by (simp add: exampleConfig_def)




subsection \<open>The fixed-time strategy\<close>

lemma signalsOf_otherFields: "otherFields i = otherFields j \<Longrightarrow> signalsOf i = signalsOf j"
  by (simp add: otherFields_def signalsOf_def)

lemma map_frame:
  assumes "map otherFields ys = map otherFields xs"
    and "\<And>i j. otherFields i = otherFields j \<Longrightarrow> f i = f j"
  shows "map f ys = map f xs"
proof -
  have len: "length ys = length xs" using assms(1) by (rule map_eq_imp_length_eq)
  have "f (ys ! k) = f (xs ! k)" if "k < length xs" for k
  proof -
    have "otherFields (ys ! k) = otherFields (xs ! k)"
      using arg_cong [OF assms(1), of "\<lambda>l. l ! k"] that len by simp
    then show ?thesis by (rule assms(2))
  qed
  then show ?thesis using len by (simp add: list_eq_iff_nth_eq)
qed

lemma signals_simulateNetworkStep:
  "map signalsOf (intersections (simulateNetworkStep rnd state config conns)) =
     map (\<lambda>(k, i). signalsOf (simulateIntersectionStep (rnd (4 * k)) (rnd (4 * k + 1))
                        (rnd (4 * k + 2)) (rnd (4 * k + 3)) i config (intersections state) conns))
       (enumerate 0 (intersections state))"
proof -
  have "map signalsOf (applyNetworkFlowInfluence xs conns) = map signalsOf xs" for xs
    unfolding applyNetworkFlowInfluence_def
    by (rule map_frame [OF foldl_applyConnection_frame]) (rule signalsOf_otherFields)
  then show ?thesis
    by (simp add: simulateNetworkStep_def Let_def comp_def case_prod_unfold)
qed

lemma runNetworkSimulation_one_tick:
  "simulationTime config = 1 \<Longrightarrow>
   runNetworkSimulation rnd config =
     [\<lparr> intersections = initializeNetwork rnd (gridSize config),
        connections = createNetworkConnections (gridSize config), time = 0,
        totalVehicles = 0, networkEfficiency = 0, averageWaitingTime = 0 \<rparr>,
      simulateNetworkStep (\<lambda>k. rnd (k + 4 * length (initializeNetwork rnd (gridSize config))))
        \<lparr> intersections = initializeNetwork rnd (gridSize config),
          connections = createNetworkConnections (gridSize config), time = 0,
          totalVehicles = 0, networkEfficiency = 0, averageWaitingTime = 0 \<rparr>
        config (createNetworkConnections (gridSize config))]"
  by (simp add: runNetworkSimulation_def Let_def)

lemma initializeNetwork_2:
  "initializeNetwork rnd 2 =
     [newIntersection rnd 0 0 0, newIntersection rnd 1 0 1,
      newIntersection rnd 2 1 0, newIntersection rnd 3 1 1]"
  by (simp add: initializeNetwork_def upt_rec)

lemma time_simulateNetworkStep: "time (simulateNetworkStep rnd s c conns) = time s + 1"
  by (simp add: simulateNetworkStep_def Let_def)

lemma step_fresh_fixed:
  "signalsOf (simulateIntersectionStep r1 r2 r3 r4 (newIntersection (\<lambda>k. c) k x y) (exampleConfig FixedTime 0) a conns)
   = (if js_rem \<lfloor>80 * c / 30\<rfloor> 2 = 0 then (Green, Green, Red, Red) else (Red, Red, Green, Green))"
  by (simp add: simulateIntersectionStep_def newIntersection_def updateSignalStrategy_def
      exampleConfig_def Let_def signalsOf_def)


lemma signals_after_one_tick:
  "map signalsOf (intersections (last (runNetworkSimulation (\<lambda>k. c) (exampleConfig FixedTime 0))))
    = (let axes = (if js_rem \<lfloor>80 * c / 30\<rfloor> 2 = 0 then (Green, Green, Red, Red)
                   else (Red, Red, Green, Green))
       in [axes, axes, axes, axes])"
proof -
  have t: "simulationTime (exampleConfig FixedTime 0) = 1" "gridSize (exampleConfig FixedTime 0) = 2"
    by (simp_all add: exampleConfig_def)
  show ?thesis
    unfolding runNetworkSimulation_one_tick [OF t(1)] t(2) 
    by (simp add: signals_simulateNetworkStep initializeNetwork_2 step_fresh_fixed Let_def)
qed

lemma updateSignalStrategy_fixed_time:
  "signalsOf (updateSignalStrategy i FixedTime nsQueue ewQueue)
     = (if js_rem \<lfloor>totalWaitingTime i / 30\<rfloor> 2 = 0 then (Green, Green, Red, Red)
        else (Red, Red, Green, Green))"
  by (simp add: updateSignalStrategy_def signalsOf_def Let_def)

text \<open>
  Claim C4. Under the fixed-time strategy the claim has the green axis decided by the
  tick count, north-south during the first 30 ticks. The code decides it by
  \<open>Math.floor(totalWaitingTime / 30) % 2\<close>, the accumulated queue lengths of the
  intersection. Two runs of one tick on a 2 by 2 grid, with traffic intensity 0, are both
  at tick 1: where every initial flow is 5 (draws 1/4) the waiting time is 20 and
  north-south is green; where every initial flow is 10 (draws 1/2) the waiting time is 40
  and east-west is green.
\<close>

theorem fixed_time_axis_follows_waiting_time:
  "map time (runNetworkSimulation (\<lambda>k. 1 / 4) (exampleConfig FixedTime 0)) = [0, 1]
   \<and> map time (runNetworkSimulation (\<lambda>k. 1 / 2) (exampleConfig FixedTime 0)) = [0, 1]
   \<and> map signalsOf (intersections (last (runNetworkSimulation (\<lambda>k. 1 / 4) (exampleConfig FixedTime 0))))
       = [(Green, Green, Red, Red), (Green, Green, Red, Red),
          (Green, Green, Red, Red), (Green, Green, Red, Red)]
   \<and> map signalsOf (intersections (last (runNetworkSimulation (\<lambda>k. 1 / 2) (exampleConfig FixedTime 0))))
       = [(Red, Red, Green, Green), (Red, Red, Green, Green),
          (Red, Red, Green, Green), (Red, Red, Green, Green)]"
proof -
  have t: "simulationTime (exampleConfig FixedTime 0) = 1"
    by (simp add: exampleConfig_def)
  have a: "js_rem \<lfloor>80 * (1 / 4) / (30::real)\<rfloor> 2 = 0" by (simp add: js_rem_def)
  have "\<lfloor>80 * (1 / 2) / (30::real)\<rfloor> = 1" by (simp add: floor_eq_iff)
  then have b: "js_rem \<lfloor>80 * (1 / 2) / (30::real)\<rfloor> 2 \<noteq> 0" by (simp add: js_rem_def)
  have "map time (runNetworkSimulation rnd (exampleConfig FixedTime 0)) = [0, 1]" for rnd
    by (simp add: runNetworkSimulation_one_tick [OF t] time_simulateNetworkStep)
  then show ?thesis
    unfolding signals_after_one_tick Let_def using a b by simp
qed


section \<open>Properties of the statistics\<close>

subsection \<open>Empty samples\<close>

text \<open>
  Claim C8. \<open>calculateBasicStats\<close> applied to the empty list returns the record whose
  eleven fields are all zero; the function is total, so nothing is raised.
\<close>

theorem calculateBasicStats_empty:
  "calculateBasicStats [] =
     \<lparr> mean = 0, median = 0, stdDev = 0, variance = 0, min_val = 0, max_val = 0,
       q1 = 0, q3 = 0, iqr = 0, skewness = Fin 0, kurtosis = Fin 0 \<rparr>"
  by (simp add: calculateBasicStats_def)

text \<open>
  Claim C9. For the empty sample and any confidence level, \<open>calculateConfidenceInterval\<close>
  divides the standard deviation 0 by \<open>Math.sqrt(0)\<close>: the standard error, the margin
  of error and both bounds are \<open>NaN\<close>, while the mean is 0, so neither
  \<open>lowerBound \<le> mean\<close> nor \<open>mean \<le> upperBound\<close> holds.
\<close>

theorem calculateConfidenceInterval_empty:
  "ci_mean (calculateConfidenceInterval [] level) = 0
   \<and> marginOfError (calculateConfidenceInterval [] level) = NaN
   \<and> lowerBound (calculateConfidenceInterval [] level) = NaN
   \<and> upperBound (calculateConfidenceInterval [] level) = NaN
   \<and> \<not> lowerBound (calculateConfidenceInterval [] level)
          \<le> Fin (ci_mean (calculateConfidenceInterval [] level))
   \<and> \<not> Fin (ci_mean (calculateConfidenceInterval [] level))
          \<le> upperBound (calculateConfidenceInterval [] level)"
  by (simp add: calculateConfidenceInterval_def calculateBasicStats_def Let_def)

text \<open>On every non-empty sample the bounds do enclose the mean.\<close>

lemma getZScore_pos: "0 < getZScore level"
  by (simp add: getZScore_def)

lemma stdDev_nonneg: "0 \<le> stdDev (calculateBasicStats data)"
proof -
  have "0 \<le> foldl (\<lambda>sum val. sum + (val - m) ^ 2) a data" if "0 \<le> a" for a m :: real
    using that by (induction data arbitrary: a) simp_all
  then show ?thesis
    by (simp add: calculateBasicStats_def Let_def)
qed

lemma calculateConfidenceInterval_nonempty:
  assumes "data \<noteq> []"
  shows "lowerBound (calculateConfidenceInterval data level)
           \<le> Fin (ci_mean (calculateConfidenceInterval data level))
       \<and> Fin (ci_mean (calculateConfidenceInterval data level))
           \<le> upperBound (calculateConfidenceInterval data level)"
proof -
  have n: "0 < sqrt (real (length data))" using assms by simp
  have "0 \<le> getZScore level * (stdDev (calculateBasicStats data) / sqrt (real (length data)))"
    using getZScore_pos [of level] stdDev_nonneg [of data] n
    by (intro mult_nonneg_nonneg divide_nonneg_nonneg) simp_all
  then show ?thesis
    using n by (simp add: calculateConfidenceInterval_def Let_def)
qed

subsection \<open>The incomplete beta function\<close>

lemma numerator_lower:
  assumes "0 \<le> m" and "0 \<le> x" and "x \<le> (1::real)"
  shows "- (1 / 4) \<le> m * (1 / 2 - m) * x / ((1 + 2 * m) * (1 + 2 * m + 1))"
proof -
  define D where "D = (1 + 2 * m) * (1 + 2 * m + 1)"
  define P where "P = m * (m - 1 / 2)"
  have d: "0 < D"
    unfolding D_def using assms(1) by (simp add: mult_pos_pos add_pos_nonneg)
  have "P \<le> D / 4"
    unfolding D_def P_def using assms(1) by (simp add: algebra_simps)
  moreover have "P * x \<le> max 0 P"
  proof (cases "0 \<le> P")
    case True
    then have "P * x \<le> P * 1" using assms(3) by (intro mult_left_mono) simp_all
    then show ?thesis using True by simp
  next
    case False
    then have "P * x \<le> 0" using assms(2) by (simp add: mult_nonpos_nonneg)
    then show ?thesis by simp
  qed
  moreover have "m * (1 / 2 - m) * x = - (P * x)"
    unfolding P_def by (simp add: algebra_simps)
  ultimately have "- (1 / 4) * D \<le> m * (1 / 2 - m) * x"
    using d by (simp add: max_def split: if_splits)
  then have "- (1 / 4) \<le> m * (1 / 2 - m) * x / D"
    using d by (simp add: pos_le_divide_eq)
  then show ?thesis unfolding D_def .
qed

lemma numerator'_eq:
  assumes "0 \<le> m"
  shows "- ((1 + m) * (1 + 1 / 2 + m) * x) / ((1 + 2 * m + 1) * (1 + 2 * m + 2)) = - (x / 4 :: real)"
proof -
  have "(1 + 2 * m + 1) * (1 + 2 * m + 2) = 4 * ((1 + m) * (1 + 1 / 2 + m))"
    by (simp add: algebra_simps)
  moreover have "(1 + m) * (1 + 1 / 2 + m) \<noteq> 0" using assms by (simp add: add_nonneg_eq_0_iff) 
  ultimately show ?thesis by simp
qed

lemma step_lower:
  assumes "- (1 / 4) \<le> n" and "1 / 2 \<le> (f::real)"
  shows "1 / 2 \<le> 1 + n / f"
proof -
  have "- (1 / 2) \<le> n / f"
  proof (cases "0 \<le> n")
    case True
    then have "0 \<le> n / f" using assms(2) by simp
    then show ?thesis by simp
  next
    case False
    have "- (1 / 4) / (1 / 2) \<le> n / (1 / 2)" using assms(1) by (simp add: divide_right_mono)
    also have "n / (1 / 2) \<le> n / f"
      using False assms(2) by (intro divide_left_mono_neg) (simp_all add: mult_pos_pos)
    finally show ?thesis by simp
  qed
  then show ?thesis by linarith
qed
lemma betaStep_bounds:
  assumes "0 \<le> x" and "x \<le> 1" and "1 / 2 \<le> f"
  shows "1 / 2 \<le> betaStep x f i" and "betaStep x f i \<le> 1"
proof -
  define n where "n = real i / 2 * (1 / 2 - real i / 2) * x
                          / ((1 + 2 * (real i / 2)) * (1 + 2 * (real i / 2) + 1))"
  have n: "- (1 / 4) \<le> n"
    unfolding n_def using assms(1,2) by (intro numerator_lower) simp_all
  have g: "1 / 2 \<le> 1 + n / f" using n assms(3) by (rule step_lower)
  have "- (1 / 4) \<le> - (x / 4)" using assms(2) by simp
  then have "1 / 2 \<le> 1 + (- (x / 4)) / (1 + n / f)" using g by (rule step_lower)
  then show "1 / 2 \<le> betaStep x f i" by (simp add: betaStep_def n_def)
  have "0 \<le> 1 + n / f" using g by linarith
  then have "0 \<le> (x / 4) / (1 + n / f)" using assms(1) by (intro divide_nonneg_nonneg) simp_all
  then show "betaStep x f i \<le> 1" by (simp add: betaStep_def n_def)
qed

lemma incompleteBetaLoop_step:
  assumes "Fin (1 / 10 ^ 10) < abs (Fin f - d)" and "i < 100"
    and "0 \<le> x" and "x \<le> 1" and "1 / 2 \<le> f"
  shows "incompleteBetaLoop (Fin x) (Fin 1) (Fin (1 / 2)) (Fin f) d i
         = incompleteBetaLoop (Fin x) (Fin 1) (Fin (1 / 2)) (Fin (betaStep x f i)) (Fin f) (Suc i)"
proof -
  define m where "m = real i / 2"
  define n where "n = m * (1 / 2 - m) * x / ((1 + 2 * m) * (1 + 2 * m + 1))"
  have m: "0 \<le> m" by (simp add: m_def)
  have d1: "(1 + 2 * m) * (1 + 2 * m + 1) \<noteq> 0"
    using m by (simp add: add_nonneg_eq_0_iff)
  have d2: "(1 + 2 * m + 1) * (1 + 2 * m + 2) \<noteq> 0"
    using m by (simp add: add_nonneg_eq_0_iff)
  have f: "f \<noteq> 0" using assms(5) by auto
  have "- (1 / 4) \<le> n" unfolding n_def using m assms(3,4) by (rule numerator_lower)
  then have "1 / 2 \<le> 1 + n / f" using assms(5) by (rule step_lower)
  then have g: "1 + n / f \<noteq> 0" by linarith
  have num: "(Fin m * (Fin (1 / 2) - Fin m) * Fin x)
              / ((Fin 1 + Fin 2 * Fin m) * (Fin 1 + Fin 2 * Fin m + Fin 1)) = Fin n"
    using d1 by (simp add: n_def)
  have num': "- ((Fin 1 + Fin m) * (Fin 1 + Fin (1 / 2) + Fin m) * Fin x)
              / ((Fin 1 + Fin 2 * Fin m + Fin 1) * (Fin 1 + Fin 2 * Fin m + Fin 2))
              = Fin (- (x / 4))"
    using d2 numerator'_eq [OF m, of x] by simp
  have f': "Fin 1 + Fin n / Fin f = Fin (1 + n / f)" using f by simp
  have f'': "Fin 1 + Fin (- (x / 4)) / Fin (1 + n / f) = Fin (betaStep x f i)"
    using g by (simp add: betaStep_def n_def m_def)
  show ?thesis
    by (subst incompleteBetaLoop.simps) (simp only: assms(1,2) simp_thms if_True Let_def
          m_def [symmetric] num num' f' f'')
qed

lemma incompleteBetaLoop_bounds:
  assumes "0 \<le> x" and "x \<le> 1" and "1 / 2 \<le> f" and "f \<le> 1"
  shows "\<exists>r. incompleteBetaLoop (Fin x) (Fin 1) (Fin (1 / 2)) (Fin f) d i = Fin r
             \<and> 1 / 2 \<le> r \<and> r \<le> 1"
  using assms(3,4)
proof (induction "100 - i" arbitrary: f d i)
  case 0
  then have "\<not> i < 100" by simp
  then have "incompleteBetaLoop (Fin x) (Fin 1) (Fin (1 / 2)) (Fin f) d i = Fin f"
    by (subst incompleteBetaLoop.simps) simp
  with 0 show ?case by simp
next
  case (Suc k)
  show ?case
  proof (cases "Fin (1 / 10 ^ 10) < abs (Fin f - d)")
    case True
    have i: "i < 100" using Suc.hyps(2) by simp
    have "k = 100 - Suc i" using Suc.hyps(2) by simp
    moreover note betaStep_bounds [OF assms(1,2) Suc.prems(1), of i]
    ultimately have "\<exists>r. incompleteBetaLoop (Fin x) (Fin 1) (Fin (1 / 2))
                           (Fin (betaStep x f i)) (Fin f) (Suc i) = Fin r
                         \<and> 1 / 2 \<le> r \<and> r \<le> 1"
      by (intro Suc.hyps(1))
    then show ?thesis
      by (simp only: incompleteBetaLoop_step [OF True i assms(1,2) Suc.prems(1)])
  next
    case False
    then have "incompleteBetaLoop (Fin x) (Fin 1) (Fin (1 / 2)) (Fin f) d i = Fin f"
      by (subst incompleteBetaLoop.simps) (simp only: simp_thms if_False)
    with Suc.prems show ?thesis by simp
  qed
qed

lemma front_one: "js_exp (Fin 1 * js_log (Fin 1) + Fin (1 / 2) * js_log (Fin 1 - Fin 1)) = Fin 0"
  by simp

lemma incompleteBeta_at_one: "incompleteBeta (Fin 1) (Fin 1) (Fin (1 / 2)) = Fin 0"
proof -
  obtain r where r: "incompleteBetaLoop (Fin 1) (Fin 1) (Fin (1 / 2)) (Fin 1) (Fin 0) 0 = Fin r"
    and "1 / 2 \<le> r"
    using incompleteBetaLoop_bounds [of 1 1 "Fin 0" 0] by auto
  then have "r \<noteq> 0" by auto
  then show ?thesis
    by (simp add: incompleteBeta_def Let_def r)
qed

lemma front_half: "1 / 4 < exp (ln (1 / 2) + 1 / 2 * ln (1 / 2 :: real))"
proof -
  have eq: "exp (ln (1 / 2) + ln (1 / 2 :: real)) = 1 / 4"
  proof -
    have "exp (ln (1 / 2 :: real)) = 1 / 2" by simp
    then have "exp (ln (1 / 2 :: real)) * exp (ln (1 / 2 :: real)) = 1 / 4" by simp
    then show ?thesis by (simp only: exp_add)
  qed
  have "ln (1 / 2 :: real) < 0" by simp
  then have "ln (1 / 2) + ln (1 / 2) < ln (1 / 2) + 1 / 2 * ln (1 / 2 :: real)" by simp
  then have "exp (ln (1 / 2) + ln (1 / 2)) < exp (ln (1 / 2) + 1 / 2 * ln (1 / 2 :: real))"
    by (simp only: exp_less_cancel_iff)
  then show ?thesis unfolding eq .
qed

lemma incompleteBeta_at_half: "Fin (1 / 4) < incompleteBeta (Fin (1 / 2)) (Fin 1) (Fin (1 / 2))"
proof -
  obtain r where r: "incompleteBetaLoop (Fin (1 / 2)) (Fin 1) (Fin (1 / 2)) (Fin 1) (Fin 0) 0 = Fin r"
    and lo: "1 / 2 \<le> r" and hi: "r \<le> 1"
    using incompleteBetaLoop_bounds [of "1 / 2" 1 "Fin 0" 0] by auto
  define e where "e = exp (ln (1 / 2) + 1 / 2 * ln (1 / 2 :: real))"
  have e: "1 / 4 < e" unfolding e_def by (rule front_half)
  have r0: "r \<noteq> 0" "0 < r" using lo by auto
  have "incompleteBeta (Fin (1 / 2)) (Fin 1) (Fin (1 / 2)) = Fin (e / r)"
    using r0 by (simp add: incompleteBeta_def Let_def r e_def)
  moreover have "1 / 4 < e / r"
  proof -
    have "e \<le> e / r" using hi r0 e by (simp add: pos_le_divide_eq mult_left_le)
    with e show ?thesis by linarith
  qed
  ultimately show ?thesis by simp
qed

text \<open>
  Claim C5. With the shape parameters \<open>a = 1\<close> and \<open>b = 1/2\<close>, which \<open>tCDF\<close> passes for
  two degrees of freedom, \<open>incompleteBeta\<close> is above 1/4 at \<open>x = 1/2\<close> and is 0 at
  \<open>x = 1\<close>, where the factor \<open>Math.exp(a * Math.log(x) + b * Math.log(1 - x))\<close> is
  \<open>Math.exp(-Infinity)\<close>: it decreases between the two arguments.
\<close>

theorem incompleteBeta_not_monotone:
  "Fin (1 / 2) < Fin 1
   \<and> Fin (1 / 4) < incompleteBeta (Fin (1 / 2)) (Fin 1) (Fin (1 / 2))
   \<and> incompleteBeta (Fin 1) (Fin 1) (Fin (1 / 2)) = Fin 0"
  using incompleteBeta_at_half incompleteBeta_at_one by simp

subsection \<open>Welch's t-test on identical samples\<close>

lemma js_pow_2: "js_pow a 2 = a * (a * Fin 1)"
  by (simp add: numeral_2_eq_2)

lemma sqrt_quarter: "sqrt (1 / 4) = 1 / 2"
  by (simp add: real_sqrt_divide)

lemma stats_12:
  "mean (calculateBasicStats [1, 2]) = 3 / 2"
  "variance (calculateBasicStats [1, 2]) = 1 / 4"
  by (simp_all add: calculateBasicStats_def Let_def reduce_sum_def power2_eq_square)

lemma tCDF_zero: "tCDF (Fin 0) (Fin 2) = Fin 0"
  by (simp add: tCDF_def Let_def incompleteBeta_at_one)

text \<open>
  Claim C1. On the sample \<open>[1, 2]\<close> passed as both arguments, \<open>independentTTest\<close>
  returns the statistic 0 and the p-value 2: the degrees of freedom are 2, \<open>tCDF\<close>
  calls \<open>incompleteBeta\<close> at \<open>x = 1\<close>, which is 0, and the p-value is
  \<open>2 * (1 - 0)\<close>.
\<close>

theorem independentTTest_identical_samples:
  "testStatistic (independentTTest [1, 2] [1, 2] level) = Fin 0
   \<and> pValue (independentTTest [1, 2] [1, 2] level) = Fin 2"
  by (simp add: independentTTest_def Let_def stats_12 sqrt_quarter js_pow_2 tCDF_zero)

text \<open>The dashboard's own \<open>performTTest\<close> returns the statistic 0 and the p-value 1 on
  the same input.\<close>

lemma ht_12:
  "ht_mean [1, 2] = Fin (3 / 2)"
  "ht_variance [1, 2] = Fin (1 / 2)"
  by (simp_all add: ht_mean_def ht_variance_def reduce_sum_def Let_def js_pow_2)

lemma performTTest_identical_samples:
  "t_statistic (performTTest [1, 2] [1, 2]) = Fin 0
   \<and> p_value (performTTest [1, 2] [1, 2]) = Fin 1"
  by (simp add: performTTest_def Let_def ht_12 js_pow_2 tDistributionCDF_def)


section \<open>Properties of the sample generator\<close>







section \<open>Determinism\<close>







end
